theory Spec2Isabelle
  imports Main
begin

section \<open>The client session of \<open>client_handler.go\<close>\<close>

subsection \<open>Frames, errors and the logger\<close>

text \<open>
  \<open>Utils.CTRLFrame\<close> is declared in the package \<open>Utils\<close>; the session reads its field
  \<open>Typ\<close> only and compares it with five constants. Go rejects a \<open>switch\<close> with two equal
  constant cases, so the five are distinct; \<open>CTRLUNKNOWN n\<close> stands for every other value
  of the field. \<open>Data\<close> holds the rest of the frame.
\<close>

datatype CTRLType =
  CTRLUNPAIR | CTRLEXPOSETCP | CTRLHIDETCP | CTRLEXPOSEUDP | CTRLHIDEUDP | CTRLUNKNOWN nat

record CTRLFrame =
  Typ :: CTRLType
  Data :: string

text \<open>
  An error of the connection is looked at through \<open>errors.Is(err, net.ErrClosed)\<close> only:
  it is \<open>ErrClosed\<close> or some other error.
\<close>

datatype conn_error = ErrClosed | ErrOther string

datatype level = Debug | Info | Error

text \<open>A log record: the level, the message and the value of the attribute \<open>Func\<close>.\<close>

type_synonym log_entry = "level \<times> string \<times> string"

subsection \<open>The port pool\<close>

text \<open>
  Modelled from the spec: the type \<open>Portqueue\<close>, its constructor \<open>NewPortqueue\<close> and its
  operations are not among the source files. The spec describes the Port Allocator as
  the ports \<open>[BASE, BASE+AMOUNT)\<close>, partitioned into free and checked-out ports; it is
  state shared process-wide, owned by the server process, and populated once. \<open>acquire\<close>
  removes and returns one free port, or signals that none is available; \<open>release\<close>
  returns a port acquired before to the free ones, and fails without a crash for a port
  that was not acquired. The two constants are those of the server's source.
\<close>

definition TCPPROXYBASE :: int where
  "TCPPROXYBASE = 47923"

definition TCPPROXYAMOUNT :: int where
  "TCPPROXYAMOUNT = 10"

record Portqueue =
  free :: "int list"
  checked_out :: "int list"

type_synonym addr = nat

text \<open>The objects of type \<open>Portqueue\<close> of the process; a \<open>*Portqueue\<close> is an index.\<close>

type_synonym heap = "Portqueue list"

text \<open>Modelled from the spec: the pool as it is populated, every port of the range free.\<close>

definition full_pool :: Portqueue where
  "full_pool =
     \<lparr>free = map (\<lambda>i. TCPPROXYBASE + int i) [0 ..< nat TCPPROXYAMOUNT], checked_out = []\<rparr>"

text \<open>
  Modelled from the spec: \<open>NewPortqueue\<close> gives the one pool of the process, at address
  0. The pool is populated once, by the first call; every later call returns the same
  pool as it is.
\<close>

definition NewPortqueue :: "heap \<Rightarrow> addr \<times> heap" where
  "NewPortqueue h = (0, if h = [] then [full_pool] else h)"





subsection \<open>The state of one session\<close>

text \<open>
  The reader goroutine \<open>readFrames\<close> is at its \<open>select\<close>, inside \<open>Utils.ReadFrame\<close>, at the
  send \<open>fromclient <- fr\<close>, or has returned. The loop of \<open>handle\<close> is at its \<open>select\<close> or has
  returned.
\<close>

datatype reader_pc = RSelect | RRead | RSend CTRLFrame | RExit

datatype handler_pc = HLoop | HReturned

text \<open>
  The fields of \<open>ClientHandler\<close> (\<open>'r\<close> is the type \<open>Relay\<close>, declared elsewhere), the
  locals of \<open>handle\<close>, and what the session does to the outside: the bytes written to
  \<open>Conn\<close>, whether \<open>Conn\<close> is closed, the records given to the logger, whether a goroutine
  panicked. \<open>clientDone\<close> says that \<open>clientctx\<close> is cancelled, by \<open>cnl\<close> or through its parent.
\<close>

record 'r session =
  exposedTcpPorts :: "int \<rightharpoonup> 'r"
  exposedUdpPorts :: "int \<rightharpoonup> 'r"
  proxyPorts :: addr
  pools :: heap
  connClosed :: bool
  connOut :: "string list"
  logs :: "log_entry list"
  reqChan :: "CTRLFrame list"
  reqClosed :: bool
  respChan :: "CTRLFrame list"
  respClosed :: bool
  clientDone :: bool
  rpc :: reader_pc
  hpc :: handler_pc
  panicked :: bool

definition chanCap :: nat where
  "chanCap = 10"

definition cnl :: "'r session \<Rightarrow> 'r session" where
  "cnl s = s\<lparr>clientDone := True\<rparr>"

definition logger :: "level \<Rightarrow> string \<Rightarrow> string \<Rightarrow> 'r session \<Rightarrow> 'r session" where
  "logger l msg fn s = s\<lparr>logs := logs s @ [(l, msg, fn)]\<rparr>"

subsection \<open>\<open>digestFrame\<close>\<close>

text \<open>
  The \<open>switch\<close> of \<open>digestFrame\<close>: \<open>CTRLUNPAIR\<close> calls \<open>cnl\<close> and returns; the four other
  cases have an empty body, and a \<open>switch\<close> without \<open>default\<close> does nothing for any other
  value. The parameter \<open>toclient\<close> is \<open>respChan\<close>.
\<close>

fun digestFrame :: "CTRLFrame \<Rightarrow> 'r session \<Rightarrow> 'r session" where
  "digestFrame msg s =
     (case Typ msg of
        CTRLUNPAIR \<Rightarrow> cnl s
      | CTRLEXPOSETCP \<Rightarrow> s
      | CTRLHIDETCP \<Rightarrow> s
      | CTRLEXPOSEUDP \<Rightarrow> s
      | CTRLHIDEUDP \<Rightarrow> s
      | CTRLUNKNOWN n \<Rightarrow> s)"

subsection \<open>\<open>handle\<close> and \<open>readFrames\<close>, step by step\<close>

text \<open>
  The two goroutines of a session interleave. One \<open>action\<close> is one step of one of them,
  together with what the outside answers at that step:
  \<^item> \<open>ParentCancel\<close>: the context given to \<open>HandleClient\<close> is cancelled;
  \<^item> \<open>ReaderSelect\<close>: \<open>readFrames\<close> evaluates its \<open>select\<close> (the case \<open>ctx.Done()\<close> when the
    context is cancelled, \<open>default\<close> otherwise);
  \<^item> \<open>ReaderRead r\<close>: \<open>Utils.ReadFrame\<close> returns \<open>r\<close>, an error or a frame;
  \<^item> \<open>ReaderSend\<close>: the send \<open>fromclient <- fr\<close> goes through; it waits while the channel
    holds \<open>chanCap\<close> frames, and panics on a closed channel;
  \<^item> \<open>HandlerDone\<close>, \<open>HandlerReq\<close>, \<open>HandlerResp enc wr\<close>: the \<open>select\<close> of \<open>handle\<close> takes
    the case \<open>clientctx.Done()\<close>, \<open>reqChan\<close> or \<open>respChan\<close>; Go takes any of the cases that
    are ready. \<open>enc\<close> is the result of \<open>Utils.ToByteArray\<close> (\<open>None\<close> for an error), \<open>wr\<close>
    the error of \<open>Conn.Write\<close> (\<open>None\<close> for none).
\<close>

datatype action =
    ParentCancel
  | ReaderSelect
  | ReaderRead "conn_error + CTRLFrame"
  | ReaderSend
  | HandlerDone
  | HandlerReq
  | HandlerResp "string option" "conn_error option"

text \<open>
  \<open>handle\<close> returns: its deferred calls run last-deferred first, \<open>close(respChan)\<close>,
  \<open>close(reqChan)\<close>, then \<open>c.Conn.Close()\<close>.
\<close>

definition handle_return :: "'r session \<Rightarrow> 'r session" where
  "handle_return s =
     (((s\<lparr>respClosed := True\<rparr>)\<lparr>reqClosed := True\<rparr>)\<lparr>connClosed := True\<rparr>)\<lparr>hpc := HReturned\<rparr>"

text \<open>
  \<open>readFrames\<close> returns: the deferred \<open>cnl()\<close> runs, also when the goroutine panics.
\<close>

definition readFrames_return :: "'r session \<Rightarrow> 'r session" where
  "readFrames_return s = cnl (s\<lparr>rpc := RExit\<rparr>)"

fun readFrames_step :: "action \<Rightarrow> 'r session \<Rightarrow> 'r session option" where
  "readFrames_step ReaderSelect s =
     (if rpc s = RSelect then
        (if clientDone s then Some (readFrames_return s) else Some (s\<lparr>rpc := RRead\<rparr>))
      else None)"
| "readFrames_step (ReaderRead r) s =
     (if rpc s = RRead then
        (case r of
           Inl err \<Rightarrow>
             (if err = ErrClosed then
                Some (readFrames_return (logger Debug ''Client connection closed'' ''readFrames'' s))
              else
                Some (readFrames_return
                        (logger Error ''Error reading frame from client'' ''readFrames'' s)))
         | Inr fr \<Rightarrow> Some (s\<lparr>rpc := RSend fr\<rparr>))
      else None)"
| "readFrames_step ReaderSend s =
     (case rpc s of
        RSend fr \<Rightarrow>
          (if reqClosed s then Some (readFrames_return (s\<lparr>panicked := True\<rparr>))
           else if length (reqChan s) < chanCap then
             Some (s\<lparr>reqChan := reqChan s @ [fr], rpc := RSelect\<rparr>)
           else None)
      | _ \<Rightarrow> None)"
| "readFrames_step _ s = None"

fun handle_step :: "action \<Rightarrow> 'r session \<Rightarrow> 'r session option" where
  "handle_step HandlerDone s =
     (if hpc s = HLoop \<and> clientDone s then Some (handle_return s) else None)"
| "handle_step HandlerReq s =
     (if hpc s = HLoop then
        (case reqChan s of
           [] \<Rightarrow> None
         | msg # rest \<Rightarrow>
             Some (digestFrame msg
                     (logger Debug ''Received frame from client'' ''handle''
                        (s\<lparr>reqChan := rest\<rparr>))))
      else None)"
| "handle_step (HandlerResp enc wr) s =
     (if hpc s = HLoop then
        (case respChan s of
           [] \<Rightarrow> None
         | msg # rest \<Rightarrow>
             (let s1 = logger Debug ''Sending response to client'' ''handle''
                         (s\<lparr>respChan := rest\<rparr>)
              in case enc of
                   None \<Rightarrow>
                     Some (logger Error ''Error converting frame to byte array'' ''handle'' s1)
                 | Some by \<Rightarrow>
                     (case wr of
                        None \<Rightarrow> Some (s1\<lparr>connOut := connOut s1 @ [by]\<rparr>)
                      | Some err \<Rightarrow>
                          (if err = ErrClosed then
                             Some (handle_return
                                     (cnl (logger Debug ''Client connection closed'' ''handle'' s1)))
                           else
                             Some (logger Debug ''Error writing frame to client'' ''handle'' s1)))))
      else None)"
| "handle_step _ s = None"

definition is_handler :: "action \<Rightarrow> bool" where
  "is_handler a = (case a of HandlerDone \<Rightarrow> True | HandlerReq \<Rightarrow> True
                   | HandlerResp enc wr \<Rightarrow> True | _ \<Rightarrow> False)"

text \<open>
  One step of the session; \<open>None\<close> when the step cannot be taken in this state. A panic
  ends the process, and nothing runs after it.
\<close>

definition fire :: "action \<Rightarrow> 'r session \<Rightarrow> 'r session option" where
  "fire a s =
     (if panicked s then None
      else if a = ParentCancel then Some (s\<lparr>clientDone := True\<rparr>)
      else if is_handler a then handle_step a s
      else readFrames_step a s)"

fun exec :: "action list \<Rightarrow> 'r session \<Rightarrow> 'r session option" where
  "exec [] s = Some s"
| "exec (a # as) s = (case fire a s of None \<Rightarrow> None | Some s' \<Rightarrow> exec as s')"

text \<open>
  \<open>HandleClient\<close> up to the loop of \<open>handle\<close>: fresh relay tables, the pool returned by
  \<open>NewPortqueue()\<close>, two empty channels, \<open>clientctx\<close> derived from \<open>ctx\<close> (\<open>done\<close> says
  whether \<open>ctx\<close> is cancelled already), the reader started.
\<close>

definition HandleClient :: "bool \<Rightarrow> heap \<Rightarrow> 'r session" where
  "HandleClient done h =
     (case NewPortqueue h of
        (p, h') \<Rightarrow>
          \<lparr>exposedTcpPorts = Map.empty, exposedUdpPorts = Map.empty, proxyPorts = p,
           pools = h', connClosed = False, connOut = [], logs = [],
           reqChan = [], reqClosed = False, respChan = [], respClosed = False,
           clientDone = done, rpc = RSelect, hpc = HLoop, panicked = False\<rparr>)"

text \<open>
  What holds in every state of a session: while \<open>handle\<close> loops nothing is closed and no
  goroutine has panicked; once it has returned the connection is closed; and a reader
  that has returned has cancelled \<open>clientctx\<close>. Nothing sends on \<open>respChan\<close>, so it stays
  empty and nothing is written to \<open>Conn\<close>.
\<close>

definition session_inv :: "'r session \<Rightarrow> bool" where
  "session_inv s =
     ((hpc s = HLoop \<longrightarrow> \<not> reqClosed s \<and> \<not> panicked s \<and> \<not> connClosed s)
      \<and> (hpc s = HReturned \<longrightarrow> reqClosed s \<and> connClosed s \<and> clientDone s)
      \<and> (rpc s = RExit \<longrightarrow> clientDone s) \<and> (panicked s \<longrightarrow> rpc s = RExit)
      \<and> respChan s = [] \<and> connOut s = [])"

text \<open>
  With \<open>clientctx\<close> cancelled, the frames \<open>handle\<close> can still take from its channels before
  it returns: those queued, and the one the reader may still add.
\<close>

definition pending :: "'r session \<Rightarrow> nat" where
  "pending s =
     length (reqChan s) + length (respChan s)
       + (case rpc s of RRead \<Rightarrow> 1 | RSend fr \<Rightarrow> 1 | _ \<Rightarrow> 0)"

definition handler_steps :: "action list \<Rightarrow> nat" where
  "handler_steps as = length (filter is_handler as)"

text \<open>
  \<open>returns_within n s\<close>: in every run of the session from \<open>s\<close>, as long as \<open>handle\<close> is
  in its loop the case \<open>clientctx.Done()\<close> of its \<open>select\<close> is ready and \<open>handle\<close> has
  taken at most \<open>n\<close> steps; and once \<open>handle\<close> has returned, \<open>Conn\<close> is closed. So \<open>handle\<close>
  never waits, and its step \<open>n + 1\<close> at the latest is its return.
\<close>

definition returns_within :: "nat \<Rightarrow> 'r session \<Rightarrow> bool" where
  "returns_within n s =
     (\<forall>as s'. exec as s = Some s' \<longrightarrow>
        (if hpc s' = HLoop
         then fire HandlerDone s' = Some (handle_return s') \<and> handler_steps as \<le> n
         else connClosed s'))"

section \<open>The server: \<open>Server.run\<close>, \<open>prepareTlsConfig\<close>, \<open>waitForCtrlConnection\<close>\<close>

subsection \<open>The TLS configuration\<close>

definition CTRLPORT :: string where
  "CTRLPORT = ''47921''"

text \<open>\<open>tls.ClientAuthType\<close> of the Go library, and the three fields of \<open>tls.Config\<close> that
  \<open>prepareTlsConfig\<close> sets. A certificate is the data it was read from; a certificate pool
  is the list of its certificates.\<close>

datatype ClientAuthType =
  NoClientCert | RequestClientCert | RequireAnyClientCert | VerifyClientCertIfGiven
  | RequireAndVerifyClientCert

record tls_Config =
  Certificates :: "string list"
  ClientCAs :: "string list"
  ClientAuth :: ClientAuthType

text \<open>
  What \<open>prepareTlsConfig\<close> asks of the operating system and the Go library: the home
  directory (\<open>None\<close> for an error), \<open>filepath.Join\<close>, the contents of a file, the
  certificates that \<open>AppendCertsFromPEM\<close> finds in PEM data (it reports \<open>ok\<close> when it finds
  one at least), and the key pair that \<open>tls.LoadX509KeyPair\<close> loads.
\<close>

record os_env =
  UserHomeDir :: "string option"
  Join :: "string list \<Rightarrow> string"
  ReadFile :: "string \<Rightarrow> string option"
  pem_certs :: "string \<Rightarrow> string list"
  LoadX509KeyPair :: "string \<Rightarrow> string \<Rightarrow> string option"

text \<open>
  What the server does, in order: a record given to the logger, a call of \<open>tls.Listen\<close>
  with its network, address and configuration, the close of the listener of a round, a
  connection accepted, the start and the end of the calls that manage the control
  connection of a proxy, and the outcome of the TLS handshake on that connection.
\<close>

datatype event =
    Log level string
  | Listen string string tls_Config
  | ListenerClosed nat
  | Accepted nat
  | SessionStart nat
  | SessionEnd nat
  | Authenticated nat
  | HandshakeFailed nat

definition prepareTlsConfig :: "os_env \<Rightarrow> event list \<times> tls_Config option" where
  "prepareTlsConfig env =
     (case UserHomeDir env of
        None \<Rightarrow> ([Log Error ''Error getting home directory:''], None)
      | Some homeDir \<Rightarrow>
          (case ReadFile env (Join env [homeDir, ''certs'', ''myCA.pem'']) of
             None \<Rightarrow> ([Log Error ''Error reading CA certificate:''], None)
           | Some caCertData \<Rightarrow>
               (let caCertPool = pem_certs env caCertData in
                if caCertPool = [] then
                  ([Log Error ''Error appending CA certificate to pool.''], None)
                else
                  (case LoadX509KeyPair env (Join env [homeDir, ''certs'', ''server.crt''])
                          (Join env [homeDir, ''certs'', ''server.key'']) of
                     None \<Rightarrow> ([Log Error ''Error loading key pair:''], None)
                   | Some cer \<Rightarrow>
                       ([], Some \<lparr>Certificates = [cer], ClientCAs = caCertPool,
                                  ClientAuth = RequireAndVerifyClientCert\<rparr>)))))"

subsection \<open>The state of the server\<close>

text \<open>
  Each call of \<open>waitForCtrlConnection\<close> opens a listener and starts a goroutine that
  closes it once \<open>listeningCtx\<close> is cancelled, by \<open>listCancel\<close> or through \<open>ctx\<close>. The
  goroutine has not started yet, waits at \<open>ctx.Done()\<close>, or has returned.
\<close>

datatype closer_pc = GNew | GWait | GExit

record listener =
  lopen :: bool
  lcancel :: bool
  closer :: closer_pc

text \<open>
  \<open>run\<close> is before \<open>prepareTlsConfig\<close>, at its \<open>select\<close>, inside \<open>l.Accept()\<close>, back from
  \<open>waitForCtrlConnection\<close>, inside \<open>manageCtrlConnectionIncoming\<close>, has returned, or has
  panicked.
\<close>

datatype run_pc =
  RunStart | RunSelect | RunAccept | RunConnected | RunSession | RunReturned | RunPanicked

text \<open>
  \<open>proxy\<close> is the field \<open>s.proxy\<close>: \<open>None\<close> for \<open>nil\<close>, \<open>Some c\<close> for the proxy that
  \<open>NewProxy(c)\<close> returned for the connection \<open>c\<close> (\<open>NewProxy\<close> and the type \<open>Proxy\<close> are
  declared elsewhere). \<open>ctxDone\<close> says that the context given to \<open>run\<close> is cancelled. The
  global \<open>wg\<close> is only counted in these functions and is left out. \<open>handshake\<close> says that
  the TLS handshake of the connection of \<open>s.proxy\<close> has completed: \<open>Accept\<close> of a listener
  of \<open>crypto/tls\<close> returns the connection before any handshake, which the first read or
  write on the connection runs.
\<close>

record server =
  proxy :: "nat option"
  ctxDone :: bool
  config :: "tls_Config option"
  listeners :: "listener list"
  pc :: run_pc
  events :: "event list"
  handshake :: bool

definition emit :: "event list \<Rightarrow> server \<Rightarrow> server" where
  "emit es s = s\<lparr>events := events s @ es\<rparr>"

text \<open>
  The steps of the server, each with what the outside answers:
  \<^item> \<open>Cancel\<close>: the enclosing process cancels the context;
  \<^item> \<open>Prepare env\<close>: \<open>run\<close> calls \<open>prepareTlsConfig\<close> in the environment \<open>env\<close>;
  \<^item> \<open>Select ok\<close>: \<open>run\<close> evaluates its \<open>select\<close>, and in the \<open>default\<close> case enters
    \<open>waitForCtrlConnection\<close> up to \<open>l.Accept()\<close>; \<open>ok\<close> says whether \<open>tls.Listen\<close> succeeds;
  \<^item> \<open>CloserStart i\<close>, \<open>CloserClose i err\<close>: the goroutine of the listener of round \<open>i\<close>
    starts, and closes the listener (\<open>err\<close>: \<open>l.Close()\<close> returns an error);
  \<^item> \<open>Accept r\<close>: \<open>l.Accept()\<close> returns the connection \<open>c\<close> (\<open>r = Some c\<close>, on an open
    listener) or an error (\<open>r = None\<close>), and \<open>waitForCtrlConnection\<close> returns;
  \<^item> \<open>Connected\<close>: \<open>run\<close> logs the client, starts \<open>manageCtrlConnectionOutgoing\<close> and calls
    \<open>manageCtrlConnectionIncoming\<close>;
  \<^item> \<open>Disconnected\<close>: \<open>manageCtrlConnectionIncoming\<close> returns (neither of the two is
    among the source files: when it returns is up to the run);
  \<^item> \<open>Handshake cert\<close>: the first read or write on the control connection, inside the
    managing calls, runs the TLS handshake; \<open>cert\<close> is the authority that issued the
    certificate the client presents, \<open>None\<close> for a client that presents none (a plain
    TCP client among them).
\<close>

datatype saction =
    Cancel
  | Prepare os_env
  | Select bool
  | CloserStart nat
  | CloserClose nat bool
  | Accept "nat option"
  | Connected
  | Disconnected
  | Handshake "string option"

text \<open>\<open>listCancel()\<close>, deferred in \<open>waitForCtrlConnection\<close>, for the listener of this round.\<close>

definition listCancel :: "server \<Rightarrow> server" where
  "listCancel s =
     s\<lparr>listeners := (listeners s)[length (listeners s) - 1 :=
                        (last (listeners s))\<lparr>lcancel := True\<rparr>]\<rparr>"

text \<open>
  \<open>waitForCtrlConnection\<close> from its start to \<open>l.Accept()\<close>: \<open>tls.Listen\<close> on
  \<open>":" + CTRLPORT\<close> with the configuration; on an error a log record and \<open>panic(err)\<close>;
  otherwise \<open>listeningCtx\<close> and the goroutine that will close the listener.
\<close>

definition waitForCtrlConnection_listen :: "bool \<Rightarrow> tls_Config \<Rightarrow> server \<Rightarrow> server" where
  "waitForCtrlConnection_listen ok c s =
     (let s1 = emit [Listen ''tcp'' ('':'' @ CTRLPORT) c] s
      in if ok then
           s1\<lparr>listeners := listeners s1 @ [\<lparr>lopen = True, lcancel = False, closer = GNew\<rparr>],
              pc := RunAccept\<rparr>
         else (emit [Log Error ''Error TLS listening''] s1)\<lparr>pc := RunPanicked\<rparr>)"

text \<open>
  \<open>waitForCtrlConnection\<close> from the return of \<open>l.Accept()\<close> to its own: on an error a log
  record; otherwise a log record and \<open>s.proxy = NewProxy(conn)\<close>, \<open>conn\<close> a connection
  on which no handshake has run; in both cases the deferred \<open>listCancel()\<close>.
\<close>

definition waitForCtrlConnection_accept :: "nat option \<Rightarrow> server \<Rightarrow> server" where
  "waitForCtrlConnection_accept r s =
     (case r of
        None \<Rightarrow>
          (listCancel (emit [Log Debug ''Error accepting connection:''] s))\<lparr>pc := RunConnected\<rparr>
      | Some c \<Rightarrow>
          (listCancel (emit [Accepted c, Log Debug ''Accepted connection, starting proxy''] s))
            \<lparr>proxy := Some c, pc := RunConnected, handshake := False\<rparr>)"

text \<open>
  The steps of \<open>run\<close>. Back from \<open>waitForCtrlConnection\<close> it reads
  \<open>s.proxy.CtrlConn.RemoteAddr()\<close> for its log record, and again after
  \<open>manageCtrlConnectionIncoming\<close>: with \<open>s.proxy\<close> \<open>nil\<close> this is a nil pointer dereference,
  a panic; for a proxy made by \<open>NewProxy\<close> the read is taken to succeed.
\<close>

fun run_step :: "saction \<Rightarrow> server \<Rightarrow> server option" where
  "run_step (Prepare env) s =
     (if pc s = RunStart then
        (case prepareTlsConfig env of
           (lg, None) \<Rightarrow>
             Some ((emit (lg @ [Log Error ''Error preparing TLS config:'']) s)\<lparr>pc := RunReturned\<rparr>)
         | (lg, Some c) \<Rightarrow> Some ((emit lg s)\<lparr>config := Some c, pc := RunSelect\<rparr>))
      else None)"
| "run_step (Select ok) s =
     (if pc s = RunSelect then
        (if ctxDone s then Some (s\<lparr>pc := RunReturned\<rparr>)
         else
           (case config s of
              None \<Rightarrow> None
            | Some c \<Rightarrow>
                Some (waitForCtrlConnection_listen ok c
                        (emit [Log Info ''Waiting for client to connect''] s))))
      else None)"
| "run_step (Accept r) s =
     (if pc s = RunAccept \<and> listeners s \<noteq> []
         \<and> (case r of None \<Rightarrow> True | Some c \<Rightarrow> lopen (last (listeners s)))
      then Some (waitForCtrlConnection_accept r s)
      else None)"
| "run_step Connected s =
     (if pc s = RunConnected then
        (case proxy s of
           None \<Rightarrow> Some (s\<lparr>pc := RunPanicked\<rparr>)
         | Some p \<Rightarrow>
             Some ((emit [Log Info ''Client connected'', SessionStart p] s)\<lparr>pc := RunSession\<rparr>))
      else None)"
| "run_step Disconnected s =
     (if pc s = RunSession then
        (case proxy s of
           None \<Rightarrow> Some (s\<lparr>pc := RunPanicked\<rparr>)
         | Some p \<Rightarrow>
             Some ((emit [SessionEnd p, Log Info ''Client disconnected''] s)\<lparr>pc := RunSelect\<rparr>))
      else None)"
| "run_step _ s = None"

fun closer_step :: "saction \<Rightarrow> server \<Rightarrow> server option" where
  "closer_step (CloserStart i) s =
     (if i < length (listeners s) \<and> closer (listeners s ! i) = GNew then
        Some ((emit [Log Debug ''Starting TLS listener''] s)
                \<lparr>listeners := (listeners s)[i := (listeners s ! i)\<lparr>closer := GWait\<rparr>]\<rparr>)
      else None)"
| "closer_step (CloserClose i err) s =
     (if i < length (listeners s) \<and> closer (listeners s ! i) = GWait
         \<and> (lcancel (listeners s ! i) \<or> ctxDone s) then
        Some ((emit ([Log Debug ''Closing TLS listener'', ListenerClosed i]
                     @ (if err then [Log Debug ''Error closing TLS listener:''] else [])
                     @ [Log Debug ''Stopping TLS listener'']) s)
                \<lparr>listeners := (listeners s)[i := (listeners s ! i)\<lparr>lopen := False, closer := GExit\<rparr>]\<rparr>)
      else None)"
| "closer_step _ s = None"

text \<open>
  The handshake of \<open>crypto/tls\<close> on the server side, as far as the client certificate
  goes: what each \<open>ClientAuthType\<close> demands of the certificate presented.
\<close>

definition verifies :: "tls_Config \<Rightarrow> string option \<Rightarrow> bool" where
  "verifies c cert =
     (case ClientAuth c of
        NoClientCert \<Rightarrow> True
      | RequestClientCert \<Rightarrow> True
      | RequireAnyClientCert \<Rightarrow> (case cert of None \<Rightarrow> False | Some x \<Rightarrow> True)
      | VerifyClientCertIfGiven \<Rightarrow>
          (case cert of None \<Rightarrow> True | Some x \<Rightarrow> x \<in> set (ClientCAs c))
      | RequireAndVerifyClientCert \<Rightarrow>
          (case cert of None \<Rightarrow> False | Some x \<Rightarrow> x \<in> set (ClientCAs c)))"

fun handshake_step :: "saction \<Rightarrow> server \<Rightarrow> server option" where
  "handshake_step (Handshake cert) s =
     (if pc s = RunSession \<and> \<not> handshake s then
        (case config s of
           None \<Rightarrow> None
         | Some c \<Rightarrow>
             (case proxy s of
                None \<Rightarrow> None
              | Some p \<Rightarrow>
                  (if verifies c cert then Some ((emit [Authenticated p] s)\<lparr>handshake := True\<rparr>)
                   else Some (emit [HandshakeFailed p] s))))
      else None)"
| "handshake_step _ s = None"

definition is_handshake :: "saction \<Rightarrow> bool" where
  "is_handshake a = (case a of Handshake cert \<Rightarrow> True | _ \<Rightarrow> False)"

definition is_closer :: "saction \<Rightarrow> bool" where
  "is_closer a = (case a of CloserStart i \<Rightarrow> True | CloserClose i err \<Rightarrow> True | _ \<Rightarrow> False)"

text \<open>One step of the server; a panic ends the process.\<close>

definition sfire :: "saction \<Rightarrow> server \<Rightarrow> server option" where
  "sfire a s =
     (if pc s = RunPanicked then None
      else if a = Cancel then Some (s\<lparr>ctxDone := True\<rparr>)
      else if is_closer a then closer_step a s
      else if is_handshake a then handshake_step a s
      else run_step a s)"

fun sexec :: "saction list \<Rightarrow> server \<Rightarrow> server option" where
  "sexec [] s = Some s"
| "sexec (a # as) s = (case sfire a s of None \<Rightarrow> None | Some s' \<Rightarrow> sexec as s')"

text \<open>The server when \<open>run\<close> is called: \<open>p\<close> is its field \<open>proxy\<close>, \<open>done\<close> its context.\<close>

definition Server_init :: "nat option \<Rightarrow> bool \<Rightarrow> server" where
  "Server_init p done =
     \<lparr>proxy = p, ctxDone = done, config = None, listeners = [], pc = RunStart, events = [],
      handshake = False\<rparr>"

text \<open>An environment in which \<open>prepareTlsConfig\<close> succeeds.\<close>

definition good_env :: os_env where
  "good_env =
     \<lparr>UserHomeDir = Some ''/root'',
      Join = (\<lambda>xs. concat (map (\<lambda>x. x @ ''/'') (butlast xs)) @ last xs),
      ReadFile = (\<lambda>f. if f = ''/root/certs/myCA.pem'' then Some ''CA'' else None),
      pem_certs = (\<lambda>d. if d = ''CA'' then [''CA-cert''] else []),
      LoadX509KeyPair = (\<lambda>c k. if c = ''/root/certs/server.crt'' \<and> k = ''/root/certs/server.key''
                                then Some ''server-cert'' else None)\<rparr>"

text \<open>An environment without a home directory.\<close>

definition bad_env :: os_env where
  "bad_env = good_env\<lparr>UserHomeDir := None\<rparr>"

text \<open>The configuration that \<open>prepareTlsConfig\<close> returns in \<open>good_env\<close>.\<close>

definition good_config :: tls_Config where
  "good_config =
     \<lparr>Certificates = [''server-cert''], ClientCAs = [''CA-cert''],
      ClientAuth = RequireAndVerifyClientCert\<rparr>"

text \<open>\<open>from_ca_file env c\<close>: the pool \<open>ClientCAs\<close> of the configuration \<open>c\<close> holds the
  certificates of the file \<open>certs/myCA.pem\<close> of the home directory, one at least.\<close>

definition from_ca_file :: "os_env \<Rightarrow> tls_Config \<Rightarrow> bool" where
  "from_ca_file env c =
     (case UserHomeDir env of
        None \<Rightarrow> False
      | Some homeDir \<Rightarrow>
          (case ReadFile env (Join env [homeDir, ''certs'', ''myCA.pem'']) of
             None \<Rightarrow> False
           | Some caCertData \<Rightarrow> ClientCAs c = pem_certs env caCertData \<and> ClientCAs c \<noteq> []))"

definition prepared_in :: "tls_Config \<Rightarrow> saction \<Rightarrow> bool" where
  "prepared_in c a = (case a of Prepare env \<Rightarrow> from_ca_file env c | _ \<Rightarrow> False)"

text \<open>\<open>mutual_tls as e\<close>: if \<open>e\<close> is a call of \<open>tls.Listen\<close>, it is on TCP, on the port
  \<open>47921\<close> of every address, and its configuration demands a client certificate and
  verifies it against the pool read from the CA file in a step \<open>Prepare\<close> of \<open>as\<close>.\<close>

definition mutual_tls :: "saction list \<Rightarrow> event \<Rightarrow> bool" where
  "mutual_tls as e =
     (case e of
        Listen n a c \<Rightarrow>
          n = ''tcp'' \<and> a = '':47921'' \<and> ClientAuth c = RequireAndVerifyClientCert
          \<and> list_ex (prepared_in c) as
      | _ \<Rightarrow> True)"

text \<open>\<open>accept_after_listen es\<close>: every connection accepted in \<open>es\<close> comes after a call of
  \<open>tls.Listen\<close>.\<close>

fun accept_after_listen :: "bool \<Rightarrow> event list \<Rightarrow> bool" where
  "accept_after_listen b [] = True"
| "accept_after_listen b (Listen n a c # es) = accept_after_listen True es"
| "accept_after_listen b (Accepted c # es) = (b \<and> accept_after_listen b es)"
| "accept_after_listen b (e # es) = accept_after_listen b es"

text \<open>\<open>one_at_a_time busy es\<close>: in \<open>es\<close> no connection is accepted while a session is
  under way (\<open>busy\<close>: one is under way at the start).\<close>

fun one_at_a_time :: "bool \<Rightarrow> event list \<Rightarrow> bool" where
  "one_at_a_time busy [] = True"
| "one_at_a_time busy (Accepted c # es) = (\<not> busy \<and> one_at_a_time busy es)"
| "one_at_a_time busy (SessionStart p # es) = (\<not> busy \<and> one_at_a_time True es)"
| "one_at_a_time busy (SessionEnd p # es) = (busy \<and> one_at_a_time False es)"
| "one_at_a_time busy (e # es) = one_at_a_time busy es"

text \<open>\<open>busy_after busy es\<close>: a session is under way after the events \<open>es\<close>.\<close>

fun busy_after :: "bool \<Rightarrow> event list \<Rightarrow> bool" where
  "busy_after busy [] = busy"
| "busy_after busy (SessionStart p # es) = busy_after True es"
| "busy_after busy (SessionEnd p # es) = busy_after False es"
| "busy_after busy (e # es) = busy_after busy es"

fun has_listen :: "event list \<Rightarrow> bool" where
  "has_listen [] = False"
| "has_listen (Listen n a c # es) = True"
| "has_listen (e # es) = has_listen es"

definition cfg_ok :: "saction list \<Rightarrow> tls_Config \<Rightarrow> bool" where
  "cfg_ok as c = (ClientAuth c = RequireAndVerifyClientCert \<and> list_ex (prepared_in c) as)"

text \<open>
  What holds of the server after the steps \<open>as\<close>: every call of \<open>tls.Listen\<close> so far was
  as \<open>mutual_tls\<close> says, and inside the loop \<open>config\<close> is the configuration prepared
  (\<open>inv_cfg\<close>); connections are accepted after a call of \<open>tls.Listen\<close>, and inside
  \<open>l.Accept()\<close> there is a listener (\<open>inv_accept\<close>); sessions and accepted connections
  alternate, and a session is under way for a proxy only (\<open>inv_busy\<close>); before
  \<open>prepareTlsConfig\<close> nothing has happened (\<open>inv_start\<close>).
\<close>

definition inv_cfg :: "saction list \<Rightarrow> server \<Rightarrow> bool" where
  "inv_cfg as s =
     ((\<forall>e \<in> set (events s). mutual_tls as e)
      \<and> (pc s \<noteq> RunStart \<and> pc s \<noteq> RunReturned \<and> pc s \<noteq> RunPanicked
           \<longrightarrow> (\<exists>c. config s = Some c \<and> cfg_ok as c)))"

definition inv_accept :: "server \<Rightarrow> bool" where
  "inv_accept s =
     (accept_after_listen False (events s)
      \<and> (pc s = RunAccept \<longrightarrow> has_listen (events s) \<and> listeners s \<noteq> []))"

definition inv_busy :: "server \<Rightarrow> bool" where
  "inv_busy s =
     (one_at_a_time False (events s)
      \<and> busy_after False (events s) = (pc s = RunSession)
      \<and> (pc s = RunSession \<longrightarrow> proxy s \<noteq> None))"

definition inv_start :: "server \<Rightarrow> bool" where
  "inv_start s = (pc s = RunStart \<longrightarrow> events s = [] \<and> listeners s = [])"

definition server_inv :: "saction list \<Rightarrow> server \<Rightarrow> bool" where
  "server_inv as s = (inv_cfg as s \<and> inv_accept s \<and> inv_busy s \<and> inv_start s)"

text \<open>
  \<open>error_step a s\<close>: the step \<open>a\<close> in the state \<open>s\<close> is one in which a call returns an
  error: \<open>prepareTlsConfig\<close> finds no configuration (one of its four calls failed),
  \<open>tls.Listen\<close> fails, \<open>l.Accept()\<close> fails, or \<open>l.Close()\<close> fails.
\<close>

definition error_step :: "saction \<Rightarrow> server \<Rightarrow> bool" where
  "error_step a s =
     (case a of
        Prepare env \<Rightarrow> snd (prepareTlsConfig env) = None
      | Select ok \<Rightarrow> (if ctxDone s then False else \<not> ok)
      | Accept r \<Rightarrow> r = None
      | CloserClose i err \<Rightarrow> err
      | _ \<Rightarrow> False)"

section \<open>Two sessions\<close>



section \<open>Properties of the session\<close>

subsection \<open>Invariants of the interleaving\<close>

lemma fire_inv: "fire a s = Some s' \<Longrightarrow> session_inv s \<Longrightarrow> session_inv s'"
  by (cases a)
     (auto simp: fire_def is_handler_def session_inv_def handle_return_def readFrames_return_def
        cnl_def logger_def Let_def
        split: if_splits list.splits option.splits sum.splits reader_pc.splits CTRLType.splits)

lemma exec_inv: "exec as s = Some s' \<Longrightarrow> session_inv s \<Longrightarrow> session_inv s'"
  by (induction as arbitrary: s) (auto split: option.splits dest: fire_inv)

lemma HandleClient_inv: "session_inv (HandleClient d h)"
  by (simp add: HandleClient_def NewPortqueue_def session_inv_def)

lemma fire_done: "fire a s = Some s' \<Longrightarrow> clientDone s \<Longrightarrow> clientDone s'"
  by (cases a)
     (auto simp: fire_def is_handler_def handle_return_def readFrames_return_def
        cnl_def logger_def Let_def
        split: if_splits list.splits option.splits sum.splits reader_pc.splits CTRLType.splits)

lemma fire_hpc: "fire a s = Some s' \<Longrightarrow> hpc s' = HLoop \<Longrightarrow> hpc s = HLoop"
  by (cases a)
     (auto simp: fire_def is_handler_def handle_return_def readFrames_return_def
        cnl_def logger_def Let_def
        split: if_splits list.splits option.splits sum.splits reader_pc.splits CTRLType.splits)

lemma fire_rexit: "fire a s = Some s' \<Longrightarrow> rpc s = RExit \<Longrightarrow> rpc s' = RExit"
  by (cases a)
     (auto simp: fire_def is_handler_def handle_return_def readFrames_return_def
        cnl_def logger_def Let_def
        split: if_splits list.splits option.splits sum.splits reader_pc.splits CTRLType.splits)

text \<open>
  Once \<open>clientctx\<close> is cancelled, every step of \<open>handle\<close> that stays in the loop takes one
  of the pending frames, and no step of the reader adds to them.
\<close>

lemma fire_pending:
  "fire a s = Some s' \<Longrightarrow> clientDone s \<Longrightarrow> hpc s' = HLoop \<Longrightarrow>
     pending s' + (if is_handler a then 1 else 0) \<le> pending s"
  by (cases a)
     (auto simp: fire_def is_handler_def handle_return_def readFrames_return_def pending_def
        cnl_def logger_def Let_def
        split: if_splits list.splits option.splits sum.splits reader_pc.splits CTRLType.splits)

lemma exec_done: "exec as s = Some s' \<Longrightarrow> clientDone s \<Longrightarrow> clientDone s'"
  by (induction as arbitrary: s) (auto split: option.splits dest: fire_done)

lemma exec_hpc: "exec as s = Some s' \<Longrightarrow> hpc s' = HLoop \<Longrightarrow> hpc s = HLoop"
  by (induction as arbitrary: s) (auto split: option.splits dest: fire_hpc)

lemma exec_rexit: "exec as s = Some s' \<Longrightarrow> rpc s = RExit \<Longrightarrow> rpc s' = RExit"
  by (induction as arbitrary: s) (auto split: option.splits dest: fire_rexit)

lemma exec_pending:
  "exec as s = Some s' \<Longrightarrow> clientDone s \<Longrightarrow> hpc s' = HLoop \<Longrightarrow>
     handler_steps as + pending s' \<le> pending s"
proof (induction as arbitrary: s)
  case Nil
  then show ?case by (simp add: handler_steps_def)
next
  case (Cons a as)
  from Cons.prems(1) obtain s1 where f: "fire a s = Some s1" and e: "exec as s1 = Some s'"
    by (auto split: option.splits)
  have d1: "clientDone s1" using f Cons.prems(2) by (rule fire_done)
  have h1: "hpc s1 = HLoop" using e Cons.prems(3) by (rule exec_hpc)
  have "handler_steps as + pending s' \<le> pending s1" using e d1 Cons.prems(3) by (rule Cons.IH)
  moreover have "pending s1 + (if is_handler a then 1 else 0) \<le> pending s"
    using f Cons.prems(2) h1 by (rule fire_pending)
  ultimately show ?case by (auto simp: handler_steps_def split: if_splits)
qed

text \<open>
  A cancelled session ends: \<open>handle\<close> returns after it has taken the pending frames at
  most, and closes the connection.
\<close>

lemma returns_withinI:
  assumes "session_inv s" "clientDone s" "pending s \<le> n"
  shows "returns_within n s"
  unfolding returns_within_def
proof (intro allI impI)
  fix as s' assume e: "exec as s = Some s'"
  have i: "session_inv s'" using e assms(1) by (rule exec_inv)
  have d: "clientDone s'" using e assms(2) by (rule exec_done)
  show "if hpc s' = HLoop
        then fire HandlerDone s' = Some (handle_return s') \<and> handler_steps as \<le> n
        else connClosed s'"
  proof (cases "hpc s' = HLoop")
    case True
    have "handler_steps as + pending s' \<le> pending s" using e assms(2) True by (rule exec_pending)
    moreover have "fire HandlerDone s' = Some (handle_return s')"
      using i d True by (simp add: fire_def is_handler_def session_inv_def)
    ultimately show ?thesis using True assms(3) by simp
  next
    case False
    then have "hpc s' = HReturned" by (cases "hpc s'") simp_all
    then show ?thesis using i by (simp add: session_inv_def)
  qed
qed



subsection \<open>What \<open>digestFrame\<close> does with a frame\<close>

text \<open>
  Claim C9. For a frame of any type but \<open>CTRLUNPAIR\<close> (the four expose and hide types
  and every unknown one) \<open>digestFrame\<close> returns the session as it was: both relay tables,
  the pool and its address, the channel of responses and the context are unchanged.
\<close>

theorem digestFrame_ignores_all_but_unpair:
  "Typ msg \<noteq> CTRLUNPAIR \<Longrightarrow> digestFrame msg s = s"
  by (cases "Typ msg") simp_all

text \<open>C9 at a \<open>HIDE_UDP\<close> frame, in a fresh session.\<close>

theorem digestFrame_ignores_all_but_unpair_witness:
  "Typ \<lparr>Typ = CTRLHIDEUDP, Data = ''47925''\<rparr> \<noteq> CTRLUNPAIR
   \<and> digestFrame \<lparr>Typ = CTRLHIDEUDP, Data = ''47925''\<rparr> (HandleClient False [] :: unit session)
       = HandleClient False []"
proof -
  have h: "Typ \<lparr>Typ = CTRLHIDEUDP, Data = ''47925''\<rparr> \<noteq> CTRLUNPAIR" by simp
  from digestFrame_ignores_all_but_unpair [OF h] show ?thesis by simp
qed

text \<open>
  Claim C2 asks that an \<open>EXPOSE_TCP\<close> frame makes the session acquire a port, start a
  relay and answer. The code does none of it: a fresh session that reads the frame
  \<open>EXPOSE_TCP(8080)\<close> and digests it is the fresh session again, with one more log
  record; no port left the pool, no relay is in the table, \<open>respChan\<close> is empty and
  nothing was written to the connection.
\<close>

theorem expose_tcp_does_nothing:
  "exec [ReaderSelect, ReaderRead (Inr \<lparr>Typ = CTRLEXPOSETCP, Data = ''8080''\<rparr>), ReaderSend,
         HandlerReq] (HandleClient False [] :: unit session)
   = Some ((HandleClient False [])
            \<lparr>logs := [(Debug, ''Received frame from client'', ''handle'')]\<rparr>)"
  by (simp add: fire_def is_handler_def HandleClient_def NewPortqueue_def chanCap_def logger_def)

text \<open>
  Claim C4. When \<open>handle\<close> takes an \<open>UNPAIR\<close> frame from \<open>reqChan\<close>, \<open>clientctx\<close> is cancelled;
  no response is queued or written, then or later; and the loop returns and closes the
  connection: from then on the case \<open>clientctx.Done()\<close> is ready at every \<open>select\<close>, and
  \<open>handle\<close> takes at most the frames still queued behind the \<open>UNPAIR\<close> and one that the
  reader may add before it returns.
\<close>

theorem unpair_cancels_and_closes:
  assumes "exec as0 (HandleClient d h) = Some s"
    and "hpc s = HLoop" and "reqChan s = msg # rest" and "Typ msg = CTRLUNPAIR"
  shows "\<exists>s1. fire HandlerReq s = Some s1 \<and> clientDone s1 \<and> respChan s1 = [] \<and> connOut s1 = []
           \<and> returns_within (length rest + 1) s1
           \<and> (\<forall>as s2. exec as s1 = Some s2 \<longrightarrow> respChan s2 = [] \<and> connOut s2 = [])"
proof -
  have i: "session_inv s" using assms(1) HandleClient_inv by (rule exec_inv)
  define s1 where "s1 = digestFrame msg (logger Debug ''Received frame from client'' ''handle''
                        (s\<lparr>reqChan := rest\<rparr>))"
  have f: "fire HandlerReq s = Some s1"
    using i assms(2,3) by (simp add: fire_def is_handler_def session_inv_def s1_def)
  have i1: "session_inv s1" using f i by (rule fire_inv)
  have d1: "clientDone s1" using assms(4) by (simp add: s1_def cnl_def)
  have "pending s1 \<le> length rest + 1"
    using i assms(4) by (simp add: s1_def pending_def cnl_def logger_def session_inv_def
        split: reader_pc.splits)
  with i1 d1 have "returns_within (length rest + 1) s1" by (rule returns_withinI)
  moreover have "\<forall>as s2. exec as s1 = Some s2 \<longrightarrow> respChan s2 = [] \<and> connOut s2 = []"
    using exec_inv [OF _ i1] by (auto simp: session_inv_def)
  ultimately show ?thesis using f d1 i1 by (auto simp: session_inv_def)
qed

text \<open>C4 in a fresh session whose reader has queued one \<open>UNPAIR\<close> frame.\<close>

theorem unpair_cancels_and_closes_witness:
  "exec [ReaderSelect, ReaderRead (Inr \<lparr>Typ = CTRLUNPAIR, Data = []\<rparr>), ReaderSend]
        (HandleClient False [] :: unit session)
     = Some ((HandleClient False [])\<lparr>reqChan := [\<lparr>Typ = CTRLUNPAIR, Data = []\<rparr>]\<rparr>)
   \<and> (\<exists>s1. fire HandlerReq
               ((HandleClient False [] :: unit session)
                  \<lparr>reqChan := [\<lparr>Typ = CTRLUNPAIR, Data = []\<rparr>]\<rparr>) = Some s1
          \<and> clientDone s1 \<and> respChan s1 = [] \<and> connOut s1 = []
          \<and> returns_within (length ([] :: CTRLFrame list) + 1) s1
          \<and> (\<forall>as s2. exec as s1 = Some s2 \<longrightarrow> respChan s2 = [] \<and> connOut s2 = []))"
proof -
  let ?u = "\<lparr>Typ = CTRLUNPAIR, Data = []\<rparr>"
  let ?s = "(HandleClient False [] :: unit session)\<lparr>reqChan := [?u]\<rparr>"
  have e: "exec [ReaderSelect, ReaderRead (Inr ?u), ReaderSend]
             (HandleClient False [] :: unit session) = Some ?s"
    by (simp add: fire_def is_handler_def HandleClient_def NewPortqueue_def chanCap_def)
  have l: "hpc ?s = HLoop" by (simp add: HandleClient_def NewPortqueue_def)
  have q: "reqChan ?s = ?u # []" by simp
  have t: "Typ ?u = CTRLUNPAIR" by simp
  from unpair_cancels_and_closes [OF e l q t] e show ?thesis by blast
qed

subsection \<open>Errors of the control connection\<close>

text \<open>
  Claim C5. When \<open>Utils.ReadFrame\<close> returns an error, the reader returns and stays
  returned, and \<open>clientctx\<close> is cancelled. An error that is \<open>net.ErrClosed\<close> leaves one
  record at debug level, any other error one record at error level. In both cases the
  session ends: \<open>handle\<close> returns after the frames still in \<open>reqChan\<close> at most, and closes
  the connection.
\<close>

theorem read_error_ends_session:
  assumes "exec as0 (HandleClient d h) = Some s" and "rpc s = RRead"
  shows "\<exists>s'. fire (ReaderRead (Inl e)) s = Some s' \<and> rpc s' = RExit \<and> clientDone s'
           \<and> logs s' = logs s @
                [if e = ErrClosed then (Debug, ''Client connection closed'', ''readFrames'')
                 else (Error, ''Error reading frame from client'', ''readFrames'')]
           \<and> (\<forall>as s2. exec as s' = Some s2 \<longrightarrow> rpc s2 = RExit)
           \<and> returns_within (length (reqChan s)) s'"
proof -
  have i: "session_inv s" using assms(1) HandleClient_inv by (rule exec_inv)
  have np: "\<not> panicked s" using i assms(2) by (auto simp: session_inv_def)
  obtain s' where f: "fire (ReaderRead (Inl e)) s = Some s'"
    using np assms(2) by (cases "e = ErrClosed") (simp_all add: fire_def is_handler_def)
  have i': "session_inv s'" using f i by (rule fire_inv)
  have r: "rpc s' = RExit" and d: "clientDone s'"
    and l: "logs s' = logs s @
                [if e = ErrClosed then (Debug, ''Client connection closed'', ''readFrames'')
                 else (Error, ''Error reading frame from client'', ''readFrames'')]"
    and p: "pending s' = length (reqChan s)"
    using f np assms(2) i
    by (auto simp: fire_def is_handler_def readFrames_return_def cnl_def logger_def pending_def
        session_inv_def split: if_splits)
  have "returns_within (length (reqChan s)) s'"
    using i' d p by (simp add: returns_withinI)
  moreover have "\<forall>as s2. exec as s' = Some s2 \<longrightarrow> rpc s2 = RExit"
    using r by (blast intro: exec_rexit)
  ultimately show ?thesis using f r d l by blast
qed

text \<open>C5 in a fresh session whose first read fails with an unexpected end of file.\<close>

theorem read_error_ends_session_witness:
  "exec [ReaderSelect] (HandleClient False [] :: unit session)
     = Some ((HandleClient False [])\<lparr>rpc := RRead\<rparr>)
   \<and> (\<exists>s'. fire (ReaderRead (Inl (ErrOther ''unexpected EOF'')))
               ((HandleClient False [] :: unit session)\<lparr>rpc := RRead\<rparr>) = Some s'
          \<and> rpc s' = RExit \<and> clientDone s'
          \<and> logs s' = [(Error, ''Error reading frame from client'', ''readFrames'')]
          \<and> returns_within 0 s')"
proof -
  let ?s = "(HandleClient False [] :: unit session)\<lparr>rpc := RRead\<rparr>"
  have e: "exec [ReaderSelect] (HandleClient False [] :: unit session) = Some ?s"
    by (simp add: fire_def is_handler_def HandleClient_def NewPortqueue_def)
  have r: "rpc ?s = RRead" by simp
  have "logs ?s = []" "reqChan ?s = []" by (simp_all add: HandleClient_def NewPortqueue_def)
  with read_error_ends_session [OF e r, of "ErrOther ''unexpected EOF''"] e
  show ?thesis by auto
qed

text \<open>
  Claim C10. Whenever the reader returns, \<open>clientctx\<close> is cancelled after its last step,
  and the session ends: \<open>handle\<close> returns after the frames left in \<open>reqChan\<close> at most,
  and closes the connection. The reader returns at its \<open>select\<close> on a cancelled context,
  on an error of \<open>Utils.ReadFrame\<close>, or on a send to the closed channel.
\<close>

theorem reader_exit_cancels_session:
  assumes "exec as0 (HandleClient d h) = Some s" and "fire a s = Some s'"
    and "rpc s \<noteq> RExit" and "rpc s' = RExit"
  shows "clientDone s' \<and> returns_within (length (reqChan s')) s'
         \<and> ((a = ReaderSelect \<and> clientDone s) \<or> (\<exists>e. a = ReaderRead (Inl e))
             \<or> (a = ReaderSend \<and> reqClosed s))"
proof -
  have i: "session_inv s" using assms(1) HandleClient_inv by (rule exec_inv)
  have i': "session_inv s'" using assms(2) i by (rule fire_inv)
  have d: "clientDone s'" using i' assms(4) by (simp add: session_inv_def)
  have p: "pending s' = length (reqChan s')"
    using i' assms(4) by (simp add: pending_def session_inv_def)
  have "returns_within (length (reqChan s')) s'"
    using i' d p by (simp add: returns_withinI)
  moreover have "(a = ReaderSelect \<and> clientDone s) \<or> (\<exists>e. a = ReaderRead (Inl e))
             \<or> (a = ReaderSend \<and> reqClosed s)"
    using assms(2,3,4)
    by (cases a)
       (auto simp: fire_def is_handler_def handle_return_def readFrames_return_def
          cnl_def logger_def Let_def
          split: if_splits list.splits option.splits sum.splits reader_pc.splits CTRLType.splits)
  ultimately show ?thesis using d by blast
qed

text \<open>C10 in a fresh session whose first read finds the connection closed.\<close>

theorem reader_exit_cancels_session_witness:
  "exec [ReaderSelect] (HandleClient False [] :: unit session)
     = Some ((HandleClient False [])\<lparr>rpc := RRead\<rparr>)
   \<and> fire (ReaderRead (Inl ErrClosed)) ((HandleClient False [] :: unit session)\<lparr>rpc := RRead\<rparr>)
     = Some ((HandleClient False [])
              \<lparr>rpc := RExit, clientDone := True,
               logs := [(Debug, ''Client connection closed'', ''readFrames'')]\<rparr>)
   \<and> returns_within 0
       ((HandleClient False [] :: unit session)
              \<lparr>rpc := RExit, clientDone := True,
               logs := [(Debug, ''Client connection closed'', ''readFrames'')]\<rparr>)"
proof -
  let ?s = "(HandleClient False [] :: unit session)\<lparr>rpc := RRead\<rparr>"
  let ?s' = "(HandleClient False [] :: unit session)
              \<lparr>rpc := RExit, clientDone := True,
               logs := [(Debug, ''Client connection closed'', ''readFrames'')]\<rparr>"
  have e: "exec [ReaderSelect] (HandleClient False [] :: unit session) = Some ?s"
    by (simp add: fire_def is_handler_def HandleClient_def NewPortqueue_def)
  have f: "fire (ReaderRead (Inl ErrClosed)) ?s = Some ?s'"
    by (simp add: fire_def is_handler_def HandleClient_def NewPortqueue_def
        readFrames_return_def cnl_def logger_def)
  have r: "rpc ?s \<noteq> RExit" by simp
  have r': "rpc ?s' = RExit" by simp
  have q: "reqChan ?s' = []" by (simp add: HandleClient_def NewPortqueue_def)
  from reader_exit_cancels_session [OF e f r r'] e f q show ?thesis by simp
qed

section \<open>Properties of the server\<close>

subsection \<open>Invariants of the server\<close>

lemma sexec_append:
  "sexec (as @ bs) s = (case sexec as s of None \<Rightarrow> None | Some s1 \<Rightarrow> sexec bs s1)"
  by (induction as arbitrary: s) (auto split: option.splits)

text \<open>\<open>prepareTlsConfig\<close> returns a configuration or logs one error.\<close>

lemma prepareTlsConfig_Some:
  "prepareTlsConfig env = (lg, Some c) \<Longrightarrow>
     ClientAuth c = RequireAndVerifyClientCert \<and> from_ca_file env c \<and> lg = []"
  by (auto simp: prepareTlsConfig_def from_ca_file_def Let_def split: option.splits if_splits)

lemma prepareTlsConfig_None:
  "prepareTlsConfig env = (lg, None) \<Longrightarrow> \<exists>m. lg = [Log Error m]"
  by (auto simp: prepareTlsConfig_def Let_def split: option.splits if_splits)

lemma mutual_tls_mono: "mutual_tls as e \<Longrightarrow> mutual_tls (as @ bs) e"
  by (auto simp: mutual_tls_def split: event.splits)

lemma cfg_ok_mono: "cfg_ok as c \<Longrightarrow> cfg_ok (as @ bs) c"
  by (auto simp: cfg_ok_def)

lemma mutual_tls_simps:
  "mutual_tls as (Log l m)" "mutual_tls as (ListenerClosed i)" "mutual_tls as (Accepted k)"
  "mutual_tls as (SessionStart k)" "mutual_tls as (SessionEnd k)"
  "mutual_tls as (Authenticated k)" "mutual_tls as (HandshakeFailed k)"
  "mutual_tls as (Listen n a c) =
     (n = ''tcp'' \<and> a = '':47921'' \<and> cfg_ok as c)"
  by (auto simp: mutual_tls_def cfg_ok_def)

lemma has_listen_append: "has_listen (es @ es') = (has_listen es \<or> has_listen es')"
  by (induction es rule: has_listen.induct) auto

lemma accept_after_listen_True_append:
  "accept_after_listen True (es @ es') = (accept_after_listen True es \<and> accept_after_listen True es')"
  by (induction True es rule: accept_after_listen.induct) auto

lemma accept_after_listen_append:
  "accept_after_listen b (es @ es') =
     (accept_after_listen b es \<and> accept_after_listen (b \<or> has_listen es) es')"
  by (induction b es rule: accept_after_listen.induct)
     (auto simp: accept_after_listen_True_append)

lemma one_at_a_time_append:
  "one_at_a_time b (es @ es') = (one_at_a_time b es \<and> one_at_a_time (busy_after b es) es')"
  by (induction b es rule: one_at_a_time.induct) auto

lemma busy_after_append: "busy_after b (es @ es') = busy_after (busy_after b es) es'"
  by (induction b es rule: busy_after.induct) auto

lemma inv_start_step:
  "sfire a s = Some s' \<Longrightarrow> inv_start s \<Longrightarrow> inv_start s'"
  by (cases a)
     (auto simp: inv_start_def sfire_def is_closer_def is_handshake_def emit_def listCancel_def Let_def
        waitForCtrlConnection_listen_def waitForCtrlConnection_accept_def
        split: if_splits option.splits prod.splits)

lemma inv_busy_step:
  "sfire a s = Some s' \<Longrightarrow> inv_busy s \<Longrightarrow> inv_busy s'"
  by (cases a)
     (auto simp: inv_busy_def sfire_def is_closer_def is_handshake_def emit_def listCancel_def Let_def
        waitForCtrlConnection_listen_def waitForCtrlConnection_accept_def
        one_at_a_time_append busy_after_append
        split: if_splits option.splits prod.splits dest!: prepareTlsConfig_None prepareTlsConfig_Some)

lemma inv_accept_step:
  "sfire a s = Some s' \<Longrightarrow> inv_accept s \<Longrightarrow> inv_accept s'"
  by (cases a)
     (auto simp: inv_accept_def sfire_def is_closer_def is_handshake_def emit_def listCancel_def Let_def
        waitForCtrlConnection_listen_def waitForCtrlConnection_accept_def
        accept_after_listen_append has_listen_append
        split: if_splits option.splits prod.splits dest!: prepareTlsConfig_None prepareTlsConfig_Some)

lemma inv_cfg_step:
  assumes "sfire a s = Some s'" and "inv_cfg as s"
  shows "inv_cfg (as @ [a]) s'"
proof -
  have old: "\<forall>e \<in> set (events s). mutual_tls (as @ [a]) e"
    using assms(2) by (auto simp: inv_cfg_def intro: mutual_tls_mono)
  have oldc: "pc s \<noteq> RunStart \<and> pc s \<noteq> RunReturned \<and> pc s \<noteq> RunPanicked
           \<longrightarrow> (\<exists>c. config s = Some c \<and> cfg_ok (as @ [a]) c)"
    using assms(2) by (auto simp: inv_cfg_def intro: cfg_ok_mono)
  show ?thesis
    using assms(1) old oldc
    by (cases a)
       (auto simp: inv_cfg_def sfire_def is_closer_def is_handshake_def emit_def listCancel_def Let_def
        waitForCtrlConnection_listen_def waitForCtrlConnection_accept_def
          mutual_tls_simps CTRLPORT_def cfg_ok_def prepared_in_def
          split: if_splits option.splits prod.splits
          dest!: prepareTlsConfig_None prepareTlsConfig_Some)
qed

lemma server_inv_step:
  assumes "server_inv as s" and "sfire a s = Some s'"
  shows "server_inv (as @ [a]) s'"
  using assms
  by (simp add: server_inv_def inv_cfg_step inv_accept_step inv_busy_step inv_start_step)

lemma server_inv_exec:
  "sexec as (Server_init p d) = Some s \<Longrightarrow> server_inv as s"
proof (induction as arbitrary: s rule: rev_induct)
  case Nil
  then show ?case
    by (auto simp: server_inv_def inv_cfg_def inv_accept_def inv_busy_def inv_start_def
        Server_init_def)
next
  case (snoc a as)
  from snoc.prems obtain s1 where e: "sexec as (Server_init p d) = Some s1"
    and f: "sfire a s1 = Some s"
    by (auto simp: sexec_append split: option.splits)
  from snoc.IH [OF e] f show ?case by (rule server_inv_step)
qed

text \<open>
  The loop of \<open>run\<close> handles one control connection at a time: in every run of the
  server no connection is accepted while the managing calls of a proxy are under way.
\<close>

lemma run_one_session_at_a_time:
  "sexec as (Server_init p d) = Some s \<Longrightarrow> one_at_a_time False (events s)"
  using server_inv_exec by (simp add: server_inv_def inv_busy_def)

subsection \<open>The control listener\<close>

text \<open>
  Claim C8 concludes that every accepted control connection is mutually authenticated.
  It is not when it is accepted, nor when its session starts: in the run of a server
  whose first client connects, the connection 1 is accepted and the managing calls are
  started on it with no handshake done; and when the client then presents no
  certificate, the handshake fails and the connection is in the session still.
\<close>

theorem accepted_connection_not_authenticated:
  "map_option events
     (sexec [Prepare good_env, Select True, Accept (Some 1), Connected] (Server_init None False))
   = Some [Log Info ''Waiting for client to connect'', Listen ''tcp'' '':47921'' good_config,
           Accepted 1, Log Debug ''Accepted connection, starting proxy'',
           Log Info ''Client connected'', SessionStart 1]
   \<and> map_option handshake
       (sexec [Prepare good_env, Select True, Accept (Some 1), Connected]
          (Server_init None False)) = Some False
   \<and> map_option handshake
       (sexec [Prepare good_env, Select True, Accept (Some 1), Connected, Handshake None]
          (Server_init None False)) = Some False
   \<and> map_option pc
       (sexec [Prepare good_env, Select True, Accept (Some 1), Connected, Handshake None]
          (Server_init None False)) = Some RunSession"
  by (simp add: sfire_def is_closer_def is_handshake_def Server_init_def good_env_def
      good_config_def prepareTlsConfig_def emit_def listCancel_def CTRLPORT_def verifies_def
      waitForCtrlConnection_listen_def waitForCtrlConnection_accept_def)

text \<open>
  Claim C8 as amended. In every run of the server, every call of \<open>tls.Listen\<close> is on TCP
  and on the port \<open>47921\<close>, with a configuration whose \<open>ClientAuth\<close> is
  \<open>RequireAndVerifyClientCert\<close> and whose pool \<open>ClientCAs\<close> holds the certificates of the
  CA file, one at least, and a connection is accepted from such a listener only. A
  connection is accepted with no handshake done, and \<open>run\<close> starts the managing calls on
  it as it is. The handshake, run by the first read or write on the connection,
  completes only for a client whose certificate verifies against that pool.
\<close>

theorem control_listener_mutual_tls:
  assumes "sexec as (Server_init p d) = Some s"
  shows "(\<forall>e \<in> set (events s). mutual_tls as e) \<and> accept_after_listen False (events s)
       \<and> (\<forall>c s1. sfire (Accept (Some c)) s = Some s1 \<longrightarrow>
             \<not> handshake s1
             \<and> (\<exists>s2. sfire Connected s1 = Some s2 \<and> pc s2 = RunSession \<and> \<not> handshake s2
                    \<and> events s2 = events s @ [Accepted c,
                         Log Debug ''Accepted connection, starting proxy'',
                         Log Info ''Client connected'', SessionStart c]))
       \<and> (\<forall>cert s1. sfire (Handshake cert) s = Some s1 \<and> handshake s1 \<longrightarrow>
             (\<exists>x c. cert = Some x \<and> config s = Some c \<and> x \<in> set (ClientCAs c)
                  \<and> cfg_ok as c))"
proof -
  have i: "server_inv as s" using assms by (rule server_inv_exec)
  have a: "(\<forall>e \<in> set (events s). mutual_tls as e) \<and> accept_after_listen False (events s)"
    using i by (simp add: server_inv_def inv_cfg_def inv_accept_def)
  have b: "\<not> handshake s1
             \<and> (\<exists>s2. sfire Connected s1 = Some s2 \<and> pc s2 = RunSession \<and> \<not> handshake s2
                    \<and> events s2 = events s @ [Accepted c,
                         Log Debug ''Accepted connection, starting proxy'',
                         Log Info ''Client connected'', SessionStart c])"
    if f: "sfire (Accept (Some c)) s = Some s1" for c s1
  proof -
    have "s1 = waitForCtrlConnection_accept (Some c) s" and "pc s \<noteq> RunPanicked"
      using f by (auto simp: sfire_def is_closer_def is_handshake_def split: if_splits)
    then show ?thesis
      by (simp add: sfire_def is_closer_def is_handshake_def emit_def listCancel_def
          waitForCtrlConnection_accept_def)
  qed
  have c: "\<exists>x c. cert = Some x \<and> config s = Some c \<and> x \<in> set (ClientCAs c) \<and> cfg_ok as c"
    if f: "sfire (Handshake cert) s = Some s1" and h: "handshake s1" for cert s1
  proof -
    have r: "pc s = RunSession" and n: "\<not> handshake s"
      using f by (auto simp: sfire_def is_closer_def is_handshake_def split: if_splits)
    then obtain c where c: "config s = Some c" and ok: "cfg_ok as c"
      using i by (auto simp: server_inv_def inv_cfg_def)
    have "verifies c cert"
      using f h r n c
      by (auto simp: sfire_def is_closer_def is_handshake_def emit_def
          split: if_splits option.splits)
    then obtain x where "cert = Some x" and "x \<in> set (ClientCAs c)"
      using ok by (auto simp: verifies_def cfg_ok_def split: option.splits)
    with c ok show ?thesis by blast
  qed
  from a b c show ?thesis by blast
qed

text \<open>Two more runs of the server whose first client connects.\<close>

lemma run_listening:
  "sexec [Prepare good_env, Select True] (Server_init None False)
   = Some \<lparr>proxy = None, ctxDone = False, config = Some good_config,
           listeners = [\<lparr>lopen = True, lcancel = False, closer = GNew\<rparr>], pc = RunAccept,
           events = [Log Info ''Waiting for client to connect'',
                     Listen ''tcp'' '':47921'' good_config],
           handshake = False\<rparr>"
  by (simp add: sfire_def is_closer_def is_handshake_def Server_init_def good_env_def
      good_config_def prepareTlsConfig_def emit_def CTRLPORT_def waitForCtrlConnection_listen_def)

lemma run_in_session:
  "sexec [Prepare good_env, Select True, Accept (Some 1), Connected] (Server_init None False)
   = Some \<lparr>proxy = Some 1, ctxDone = False, config = Some good_config,
           listeners = [\<lparr>lopen = True, lcancel = True, closer = GNew\<rparr>], pc = RunSession,
           events = [Log Info ''Waiting for client to connect'',
                     Listen ''tcp'' '':47921'' good_config, Accepted 1,
                     Log Debug ''Accepted connection, starting proxy'',
                     Log Info ''Client connected'', SessionStart 1],
           handshake = False\<rparr>"
  by (simp add: sfire_def is_closer_def is_handshake_def Server_init_def good_env_def
      good_config_def prepareTlsConfig_def emit_def listCancel_def CTRLPORT_def
      waitForCtrlConnection_listen_def waitForCtrlConnection_accept_def)

text \<open>
  C8 as amended, in the run of a server whose first client connects: at the call of
  \<open>tls.Listen\<close>, at the accepted connection, and at the handshake of a client with a
  certificate of the CA.
\<close>

theorem control_listener_mutual_tls_witness:
  "(\<exists>s. sexec [Prepare good_env, Select True] (Server_init None False) = Some s
       \<and> Listen ''tcp'' '':47921'' good_config \<in> set (events s)
       \<and> mutual_tls [Prepare good_env, Select True] (Listen ''tcp'' '':47921'' good_config)
       \<and> (\<exists>s1. sfire (Accept (Some 1)) s = Some s1 \<and> \<not> handshake s1
              \<and> (\<exists>s2. sfire Connected s1 = Some s2 \<and> pc s2 = RunSession \<and> \<not> handshake s2)))
   \<and> (\<exists>s. sexec [Prepare good_env, Select True, Accept (Some 1), Connected]
              (Server_init None False) = Some s
       \<and> (\<exists>s1. sfire (Handshake (Some ''CA-cert'')) s = Some s1 \<and> handshake s1
              \<and> (\<exists>c. config s = Some c \<and> ''CA-cert'' \<in> set (ClientCAs c))))"
proof -
  let ?s = "\<lparr>proxy = None, ctxDone = False, config = Some good_config,
           listeners = [\<lparr>lopen = True, lcancel = False, closer = GNew\<rparr>], pc = RunAccept,
           events = [Log Info ''Waiting for client to connect'',
                     Listen ''tcp'' '':47921'' good_config],
           handshake = False\<rparr>"
  obtain s1 where f1: "sfire (Accept (Some 1)) ?s = Some s1"
    by (simp add: sfire_def is_closer_def is_handshake_def)
  have l: "Listen ''tcp'' '':47921'' good_config \<in> set (events ?s)" by simp
  have a: "\<exists>s. sexec [Prepare good_env, Select True] (Server_init None False) = Some s
       \<and> Listen ''tcp'' '':47921'' good_config \<in> set (events s)
       \<and> mutual_tls [Prepare good_env, Select True] (Listen ''tcp'' '':47921'' good_config)
       \<and> (\<exists>s1. sfire (Accept (Some 1)) s = Some s1 \<and> \<not> handshake s1
              \<and> (\<exists>s2. sfire Connected s1 = Some s2 \<and> pc s2 = RunSession \<and> \<not> handshake s2))"
    using control_listener_mutual_tls [OF run_listening] run_listening f1 l by blast
  let ?t = "\<lparr>proxy = Some 1, ctxDone = False, config = Some good_config,
           listeners = [\<lparr>lopen = True, lcancel = True, closer = GNew\<rparr>], pc = RunSession,
           events = [Log Info ''Waiting for client to connect'',
                     Listen ''tcp'' '':47921'' good_config, Accepted 1,
                     Log Debug ''Accepted connection, starting proxy'',
                     Log Info ''Client connected'', SessionStart 1],
           handshake = False\<rparr>"
  obtain t1 where f2: "sfire (Handshake (Some ''CA-cert'')) ?t = Some t1" and h2: "handshake t1"
    by (simp add: sfire_def is_closer_def is_handshake_def verifies_def good_config_def emit_def)
  have b: "\<exists>s. sexec [Prepare good_env, Select True, Accept (Some 1), Connected]
              (Server_init None False) = Some s
       \<and> (\<exists>s1. sfire (Handshake (Some ''CA-cert'')) s = Some s1 \<and> handshake s1
              \<and> (\<exists>c. config s = Some c \<and> ''CA-cert'' \<in> set (ClientCAs c)))"
    using control_listener_mutual_tls [OF run_in_session] run_in_session f2 h2 by blast
  from a b show ?thesis by blast
qed

subsection \<open>The error paths of the server\<close>

text \<open>
  Claim C6 says that no error path but the failure to prepare the TLS configuration
  aborts the process. A failure of \<open>tls.Listen\<close> does: with the configuration prepared
  and the context not cancelled, \<open>waitForCtrlConnection\<close> panics when \<open>tls.Listen\<close>
  returns an error.
\<close>

theorem listen_error_panics:
  "map_option pc (sexec [Prepare good_env, Select False] (Server_init None False))
   = Some RunPanicked"
  by (simp add: sfire_def is_closer_def is_handshake_def Server_init_def good_env_def
      prepareTlsConfig_def emit_def CTRLPORT_def waitForCtrlConnection_listen_def)

text \<open>
  Claim C6 as amended. Every error path of the server but a failure of \<open>tls.Listen\<close> is
  passed without a panic where the error occurs. A failure to prepare the TLS
  configuration is logged, by \<open>prepareTlsConfig\<close> and by \<open>run\<close>, and \<open>run\<close> returns before
  its loop, no listener opened. An error of \<open>l.Accept()\<close> is logged and
  \<open>waitForCtrlConnection\<close> returns, \<open>s.proxy\<close> left as it was. An error of \<open>l.Close()\<close> is
  logged and \<open>run\<close> is where it was. A failure of \<open>tls.Listen\<close> on the control port is
  logged and panics.
\<close>

theorem error_paths_of_the_server:
  assumes "sexec as (Server_init p d) = Some s" and "sfire a s = Some s'"
    and "error_step a s"
  shows "(pc s' = RunPanicked \<longleftrightarrow> a = Select False)
       \<and> (\<forall>env. a = Prepare env \<longrightarrow>
            pc s' = RunReturned \<and> listeners s' = []
            \<and> (\<exists>m. events s' = [Log Error m, Log Error ''Error preparing TLS config:'']))
       \<and> (a = Select False \<longrightarrow>
            (\<exists>c. events s' = events s @ [Log Info ''Waiting for client to connect'',
                     Listen ''tcp'' '':47921'' c, Log Error ''Error TLS listening'']))
       \<and> (a = Accept None \<longrightarrow>
            pc s' = RunConnected \<and> proxy s' = proxy s
            \<and> events s' = events s @ [Log Debug ''Error accepting connection:''])
       \<and> (\<forall>i. a = CloserClose i True \<longrightarrow>
            pc s' = pc s \<and> proxy s' = proxy s
            \<and> events s' = events s @ [Log Debug ''Closing TLS listener'', ListenerClosed i,
                 Log Debug ''Error closing TLS listener:'', Log Debug ''Stopping TLS listener''])"
proof (cases a)
  case (Prepare env)
  have i: "inv_start s" using server_inv_exec [OF assms(1)] by (simp add: server_inv_def)
  obtain lg where p: "prepareTlsConfig env = (lg, None)"
    using assms(3) Prepare by (cases "prepareTlsConfig env") (simp add: error_step_def)
  then obtain m where "lg = [Log Error m]" by (auto dest: prepareTlsConfig_None)
  with p i Prepare assms(2) show ?thesis
    by (auto simp: sfire_def is_closer_def is_handshake_def emit_def inv_start_def
        split: if_splits)
next
  case (Select ok)
  then have ok: "\<not> ok" and nd: "\<not> ctxDone s"
    using assms(3) by (auto simp: error_step_def split: if_splits)
  with Select assms(2) show ?thesis
    by (auto simp: sfire_def is_closer_def is_handshake_def emit_def CTRLPORT_def
        waitForCtrlConnection_listen_def Let_def split: if_splits option.splits)
next
  case (Accept r)
  then have "r = None" using assms(3) by (simp add: error_step_def)
  with Accept assms(2) show ?thesis
    by (auto simp: sfire_def is_closer_def is_handshake_def emit_def listCancel_def
        waitForCtrlConnection_accept_def split: if_splits)
next
  case (CloserClose i err)
  then have "err" using assms(3) by (simp add: error_step_def)
  with CloserClose assms(2) show ?thesis
    by (auto simp: sfire_def is_closer_def is_handshake_def emit_def split: if_splits)
qed (use assms(3) in \<open>simp_all add: error_step_def\<close>)

text \<open>A run of the server up to the close of its first listener.\<close>

lemma run_closing:
  "sexec [Prepare good_env, Select True, CloserStart 0, Cancel] (Server_init None False)
   = Some \<lparr>proxy = None, ctxDone = True, config = Some good_config,
           listeners = [\<lparr>lopen = True, lcancel = False, closer = GWait\<rparr>], pc = RunAccept,
           events = [Log Info ''Waiting for client to connect'',
                     Listen ''tcp'' '':47921'' good_config, Log Debug ''Starting TLS listener''],
           handshake = False\<rparr>"
  by (simp add: sfire_def is_closer_def is_handshake_def Server_init_def good_env_def
      good_config_def prepareTlsConfig_def emit_def CTRLPORT_def waitForCtrlConnection_listen_def)

lemma run_prepared:
  "sexec [Prepare good_env] (Server_init None False)
   = Some \<lparr>proxy = None, ctxDone = False, config = Some good_config,
           listeners = [], pc = RunSelect, events = [], handshake = False\<rparr>"
  by (simp add: sfire_def is_closer_def is_handshake_def Server_init_def good_env_def
      good_config_def prepareTlsConfig_def emit_def)

text \<open>
  C6 as amended, at each of the four errors: no home directory; \<open>tls.Listen\<close> fails;
  \<open>l.Accept()\<close> fails with no client yet; \<open>l.Close()\<close> fails after a cancellation.
\<close>

theorem error_paths_of_the_server_witness:
  "(\<exists>s'. sfire (Prepare bad_env) (Server_init None False) = Some s'
        \<and> error_step (Prepare bad_env) (Server_init None False)
        \<and> pc s' = RunReturned \<and> listeners s' = []
        \<and> (\<exists>m. events s' = [Log Error m, Log Error ''Error preparing TLS config:'']))
   \<and> (\<exists>s s'. sexec [Prepare good_env] (Server_init None False) = Some s
        \<and> sfire (Select False) s = Some s' \<and> error_step (Select False) s
        \<and> pc s' = RunPanicked)
   \<and> (\<exists>s s'. sexec [Prepare good_env, Select True] (Server_init None False) = Some s
        \<and> sfire (Accept None) s = Some s' \<and> error_step (Accept None) s
        \<and> pc s' = RunConnected \<and> proxy s' = None
        \<and> events s' = events s @ [Log Debug ''Error accepting connection:''])
   \<and> (\<exists>s s'. sexec [Prepare good_env, Select True, CloserStart 0, Cancel]
                 (Server_init None False) = Some s
        \<and> sfire (CloserClose 0 True) s = Some s' \<and> error_step (CloserClose 0 True) s
        \<and> pc s' = RunAccept \<and> pc s' \<noteq> RunPanicked)"
proof -
  have e0: "sexec [] (Server_init None False) = Some (Server_init None False)" by simp
  obtain s0 where f0: "sfire (Prepare bad_env) (Server_init None False) = Some s0"
    by (simp add: sfire_def is_closer_def is_handshake_def Server_init_def
        prepareTlsConfig_def bad_env_def good_env_def)
  have x0: "error_step (Prepare bad_env) (Server_init None False)"
    by (simp add: error_step_def prepareTlsConfig_def bad_env_def good_env_def)
  have a: "\<exists>s'. sfire (Prepare bad_env) (Server_init None False) = Some s'
        \<and> error_step (Prepare bad_env) (Server_init None False)
        \<and> pc s' = RunReturned \<and> listeners s' = []
        \<and> (\<exists>m. events s' = [Log Error m, Log Error ''Error preparing TLS config:''])"
    using error_paths_of_the_server [OF e0 f0 x0] f0 x0 by blast
  let ?s1 = "\<lparr>proxy = None, ctxDone = False, config = Some good_config,
           listeners = [], pc = RunSelect, events = [], handshake = False\<rparr>"
  obtain t1 where f1: "sfire (Select False) ?s1 = Some t1"
    by (simp add: sfire_def is_closer_def is_handshake_def)
  have x1: "error_step (Select False) ?s1" by (simp add: error_step_def)
  have b: "\<exists>s s'. sexec [Prepare good_env] (Server_init None False) = Some s
        \<and> sfire (Select False) s = Some s' \<and> error_step (Select False) s
        \<and> pc s' = RunPanicked"
    using error_paths_of_the_server [OF run_prepared f1 x1] run_prepared f1 x1 by blast
  let ?s2 = "\<lparr>proxy = None, ctxDone = False, config = Some good_config,
           listeners = [\<lparr>lopen = True, lcancel = False, closer = GNew\<rparr>], pc = RunAccept,
           events = [Log Info ''Waiting for client to connect'',
                     Listen ''tcp'' '':47921'' good_config],
           handshake = False\<rparr>"
  obtain t2 where f2: "sfire (Accept None) ?s2 = Some t2"
    by (simp add: sfire_def is_closer_def is_handshake_def)
  have x2: "error_step (Accept None) ?s2" by (simp add: error_step_def)
  have "pc t2 = RunConnected \<and> proxy t2 = proxy ?s2
        \<and> events t2 = events ?s2 @ [Log Debug ''Error accepting connection:'']"
    using error_paths_of_the_server [OF run_listening f2 x2] by blast
  then have c: "\<exists>s s'. sexec [Prepare good_env, Select True] (Server_init None False) = Some s
        \<and> sfire (Accept None) s = Some s' \<and> error_step (Accept None) s
        \<and> pc s' = RunConnected \<and> proxy s' = None
        \<and> events s' = events s @ [Log Debug ''Error accepting connection:'']"
    using run_listening f2 x2 by (intro exI [of _ ?s2] exI [of _ t2]) simp
  let ?s3 = "\<lparr>proxy = None, ctxDone = True, config = Some good_config,
           listeners = [\<lparr>lopen = True, lcancel = False, closer = GWait\<rparr>], pc = RunAccept,
           events = [Log Info ''Waiting for client to connect'',
                     Listen ''tcp'' '':47921'' good_config, Log Debug ''Starting TLS listener''],
           handshake = False\<rparr>"
  obtain t3 where f3: "sfire (CloserClose 0 True) ?s3 = Some t3"
    by (simp add: sfire_def is_closer_def is_handshake_def)
  have x3: "error_step (CloserClose 0 True) ?s3" by (simp add: error_step_def)
  have "pc t3 = pc ?s3 \<and> (pc t3 = RunPanicked \<longleftrightarrow> CloserClose 0 True = Select False)"
    using error_paths_of_the_server [OF run_closing f3 x3] by blast
  then have d: "\<exists>s s'. sexec [Prepare good_env, Select True, CloserStart 0, Cancel]
                 (Server_init None False) = Some s
        \<and> sfire (CloserClose 0 True) s = Some s' \<and> error_step (CloserClose 0 True) s
        \<and> pc s' = RunAccept \<and> pc s' \<noteq> RunPanicked"
    using run_closing f3 x3 by (intro exI [of _ ?s3] exI [of _ t3]) simp
  from a b c d show ?thesis by blast
qed

subsection \<open>Cancellation\<close>

text \<open>
  With the context cancelled while \<open>run\<close> is inside \<open>l.Accept()\<close>, the goroutine of the
  listener can close it; then no connection is accepted any more, \<open>l.Accept()\<close> returns
  an error and \<open>waitForCtrlConnection\<close> returns, \<open>s.proxy\<close> left as it was.
\<close>

lemma cancel_unblocks_accept:
  assumes "pc s = RunAccept" and "listeners s \<noteq> []" and "ctxDone s"
    and "closer (last (listeners s)) = GWait"
  shows "\<exists>s1. sfire (CloserClose (length (listeners s) - 1) err) s = Some s1
           \<and> ListenerClosed (length (listeners s) - 1) \<in> set (events s1)
           \<and> sfire (Accept (Some c)) s1 = None
           \<and> (\<exists>s2. sfire (Accept None) s1 = Some s2 \<and> pc s2 = RunConnected
                  \<and> proxy s2 = proxy s)"
  using assms
  by (auto simp: sfire_def is_closer_def is_handshake_def emit_def listCancel_def last_conv_nth
      waitForCtrlConnection_accept_def)

text \<open>
  Back from \<open>waitForCtrlConnection\<close> with the context cancelled and a proxy from an
  earlier client, \<open>run\<close> returns at its next \<open>select\<close>, once
  \<open>manageCtrlConnectionIncoming\<close> has returned.
\<close>

lemma cancelled_run_returns_after_session:
  assumes "pc s = RunConnected" and "ctxDone s" and "proxy s = Some p"
  shows "map_option pc (sexec [Connected, Disconnected, Select ok] s) = Some RunReturned"
  using assms by (simp add: sfire_def is_closer_def is_handshake_def emit_def)

text \<open>
  Claim C7 asks that a cancellation makes the listener close and the accept loop exit.
  When the context is cancelled while \<open>run\<close> waits for its first client, the listener
  closes and \<open>l.Accept()\<close> returns an error, but \<open>run\<close> does not reach its \<open>select\<close>: back
  from \<open>waitForCtrlConnection\<close> it reads \<open>s.proxy.CtrlConn\<close> with \<open>s.proxy\<close> still \<open>nil\<close>,
  and panics.
\<close>

theorem cancel_before_first_client_panics:
  "map_option pc
     (sexec [Prepare good_env, Select True, CloserStart 0, Cancel, CloserClose 0 False,
             Accept None, Connected] (Server_init None False))
   = Some RunPanicked"
  by (simp add: sfire_def is_closer_def is_handshake_def Server_init_def good_env_def
      prepareTlsConfig_def emit_def listCancel_def CTRLPORT_def
      waitForCtrlConnection_listen_def waitForCtrlConnection_accept_def)

section \<open>The pool of two sessions\<close>







end
